theory Spec2Isabelle
  imports Complex_Main
begin

section \<open>Python values and failures\<close>

text \<open>
  The library computes with Python floats. The embedding idealises them as the real
  numbers: every arithmetic operation is exact, so the theorems below are statements
  about the formulas the code evaluates, not about rounding. Integers that the code
  uses as indices, ages or counts are \<open>int\<close>, lists are HOL lists, and every
  exception the code can raise is a value of \<open>py_error\<close>.

  Python 3 answers a negative float raised to \<open>0.5\<close> with a complex number, so
  the quantities derived from \<open>C_x\<close> are complex numbers; a float among them is
  the complex number with imaginary part 0. Non-finite floats (\<open>inf\<close>, \<open>nan\<close>) are
  not represented, nor is the overflow of a float power while the commutation
  sequences are built: where Python would stop there, the embedding still builds
  the object. Converting an integer that is too large to a float does raise here
  as in Python.
\<close>

datatype py_error =
  IndexError | ValueError | ZeroDivisionError | TypeError | AttributeError | OverflowError

text \<open>Sequencing of two fallible computations: the first failure propagates.\<close>

definition and_then :: "py_error + 'a \<Rightarrow> ('a \<Rightarrow> py_error + 'b) \<Rightarrow> py_error + 'b" where
  "and_then r f = (case r of Inl e \<Rightarrow> Inl e | Inr v \<Rightarrow> f v)"

text \<open>\<open>a / b\<close> on floats or complex numbers raises on a zero divisor.\<close>

definition truediv :: "'a::field \<Rightarrow> 'a \<Rightarrow> py_error + 'a" where
  "truediv a b = (if b = 0 then Inl ZeroDivisionError else Inr (a / b))"

text \<open>
  \<open>float(k)\<close> of an integer: CPython rounds to the nearest double and raises
  \<open>OverflowError\<close> when that is beyond the largest finite double, which is the
  case from \<open>2^1024 - 2^970\<close> on (half-way between the largest double
  \<open>2^1024 - 2^971\<close> and \<open>2^1024\<close>, a tie that rounds up).
\<close>

definition float_limit :: int where
  "float_limit = 2 ^ 1024 - 2 ^ 970"

definition py_float :: "int \<Rightarrow> py_error + real" where
  "py_float k = (if float_limit \<le> \<bar>k\<bar> then Inl OverflowError else Inr (real_of_int k))"

text \<open>\<open>xs[i]\<close>: a negative index counts from the end, an index out of range raises.\<close>

definition getitem :: "'a list \<Rightarrow> int \<Rightarrow> py_error + 'a" where
  "getitem xs i =
     (if 0 \<le> i \<and> i < int (length xs) then Inr (xs ! nat i)
      else if i < 0 \<and> - int (length xs) \<le> i then Inr (xs ! nat (int (length xs) + i))
      else Inl IndexError)"

text \<open>\<open>xs[i:]\<close>: a slice never raises; its start is clipped to the list.\<close>

definition slice_from :: "'a list \<Rightarrow> int \<Rightarrow> 'a list" where
  "slice_from xs i =
     (if i < 0 then drop (nat (max 0 (int (length xs) + i))) xs else drop (nat i) xs)"

text \<open>\<open>xs.index(v)\<close>: the first position holding \<open>v\<close>, \<open>ValueError\<close> if there is none.\<close>

fun index :: "'a list \<Rightarrow> 'a \<Rightarrow> py_error + nat" where
  "index [] v = Inl ValueError"
| "index (x # xs) v =
     (if x = v then Inr 0
      else (case index xs v of Inl e \<Rightarrow> Inl e | Inr k \<Rightarrow> Inr (Suc k)))"

section \<open>The attributes shared by the three classes\<close>

text \<open>
  \<open>MortalityTable\<close>, \<open>Pers\<close> and \<open>Actuarial\<close> all carry \<open>l_x\<close>, \<open>q_x\<close>,
  \<open>e_x\<close> and \<open>w\<close>; \<open>Actuarial.__init__\<close> reads exactly these four from the
  object it is given. They form the base record, which the classes extend.
\<close>

record life =
  l_x :: "real list"
  q_x :: "real list"
  e_x :: "real list"
  w :: int

section \<open>MortalityTable\<close>

text \<open>
  \<open>nt\<close> is a Python list \<open>[init, v1, v2, ...]\<close> or \<open>None\<close>; the test
  \<open>if nt:\<close> treats \<open>None\<close> and the empty list alike, so both are \<open>None\<close> here.
\<close>

record MortalityTable = life +
  perc :: real
  nt :: "(int \<times> real list) option"

text \<open>
  The loop over \<open>mt[1:]\<close>: a rate is scaled and appended while the previous scaled
  rate is below 1000.
\<close>

fun nt_loop :: "real \<Rightarrow> real \<Rightarrow> real list \<Rightarrow> real list" where
  "nt_loop p end_val [] = []"
| "nt_loop p end_val (val # vals) =
     (if end_val < 1000 then (val * p / 100) # nt_loop p (val * p / 100) vals
      else nt_loop p end_val vals)"

definition nt_q_x :: "real \<Rightarrow> int \<Rightarrow> real list \<Rightarrow> real list" where
  "nt_q_x p init vals =
     replicate (nat init) 0 @ nt_loop p 0 vals @ (if p \<noteq> 100 then [1000] else [])"

text \<open>
  The loop \<open>for val in self.q_x: self.l_x.append(self.l_x[-1] * (1 - val / 1000))\<close>,
  returning what it appends after the value \<open>prev\<close>.
\<close>

fun lx_from_qx :: "real \<Rightarrow> real list \<Rightarrow> real list" where
  "lx_from_qx prev [] = []"
| "lx_from_qx prev (val # vals) =
     (prev * (1 - val / 1000)) # lx_from_qx (prev * (1 - val / 1000)) vals"

definition close_table :: "real list \<Rightarrow> real list" where
  "close_table l = (if last l \<noteq> 0 then l @ [0] else l)"

definition MortalityTable_init ::
  "real list \<Rightarrow> real list \<Rightarrow> (int \<times> real list) option \<Rightarrow> real \<Rightarrow> py_error + MortalityTable" where
  "MortalityTable_init l q n p =
     (let q1 = (case n of None \<Rightarrow> q | Some (init, vals) \<Rightarrow> nt_q_x p init vals);
          l1 = (if l = [] then 100000 # lx_from_qx 100000 q1 else l);
          l2 = close_table l1
      in case index l2 0 of
           Inl e \<Rightarrow> Inl e
         | Inr k \<Rightarrow> Inr \<lparr>l_x = l2, q_x = q1, e_x = [], w = int k - 1, perc = p, nt = n\<rparr>)"

section \<open>Pers\<close>

text \<open>
  The first loop of \<open>Pers.__init__\<close>: \<open>self.w\<close> starts at 0, and 0 is also the
  loop's marker for "not set yet".
\<close>

fun w_loop :: "int \<Rightarrow> ('a MortalityTable_scheme \<times> int) list \<Rightarrow> int" where
  "w_loop acc [] = acc"
| "w_loop acc ((mt, os) # rest) =
     w_loop (if acc = 0 then w mt - os else min acc (w mt - os)) rest"

text \<open>
  The loop \<open>for i in range(0, self.w)\<close>. It stands after, not inside, the loop over
  the tables, so it runs once, with the table \<open>mt\<close> and the offset \<open>os\<close> that the
  earlier loops left bound. \<open>ml\<close> is \<open>mt.l_x\<close>, \<open>l\<close> is \<open>self.l_x\<close>.
\<close>

fun lx_loop :: "real list \<Rightarrow> nat \<Rightarrow> nat list \<Rightarrow> real list \<Rightarrow> py_error + real list" where
  "lx_loop ml os [] l = Inr l"
| "lx_loop ml os (i # is) l =
     (let l1 = (if i < length l then l @ [0] else l)
      in if i < length l1
         then lx_loop ml os is
                (l1[i := (if i + os < length ml then l1 ! i * ml ! (i + os) else 0)])
         else Inl IndexError)"

fun qx_loop :: "real \<Rightarrow> real list \<Rightarrow> real list" where
  "qx_loop lx [] = []"
| "qx_loop lx (lx1 # rest) =
     (if lx > 0 then (lx - lx1) * 1000 / lx else 1) # qx_loop lx1 rest"

definition calc_q_x :: "real list \<Rightarrow> real list" where
  "calc_q_x l = (case l of [] \<Rightarrow> [] | lx # rest \<Rightarrow> qx_loop lx rest)"

fun ex_loop :: "real \<Rightarrow> real list \<Rightarrow> real list" where
  "ex_loop sum_lx [] = []"
| "ex_loop sum_lx (lx_g # rest) =
     (if lx_g > 0 then 1 / 2 + (sum_lx - lx_g) / lx_g else 1 / 2) # ex_loop (sum_lx - lx_g) rest"

definition calc_e_x :: "real list \<Rightarrow> real list" where
  "calc_e_x l = ex_loop (sum_list (butlast l)) (butlast l)"

text \<open>
  \<open>Pers.__init__\<close> for a list of tables (a single table passed without a list
  is wrapped into a one-element list first). \<open>min\<close> of an empty age list raises
  \<open>ValueError\<close>; \<open>offsets[i]\<close> raises when there are fewer ages than tables;
  \<open>MortalityTable_list[0]\<close> raises on an empty list. After the loops over the
  tables, \<open>mt\<close> and \<open>os\<close> are those of the last table (of the only table when
  there is one: the second loop then has no iteration and the first loop's
  binding stays).
\<close>

definition Pers_init :: "'a MortalityTable_scheme list \<Rightarrow> int list \<Rightarrow> py_error + life" where
  "Pers_init mts age_list =
     (if age_list = [] then Inl ValueError
      else
        let age_min = min_list age_list;
            offsets = map (\<lambda>x. x - age_min) age_list
        in if length offsets < length mts then Inl IndexError
           else if mts = [] then Inl IndexError
           else
             let w1 = w_loop 0 (zip mts offsets);
                 l0 = slice_from (l_x (hd mts)) (hd offsets);
                 mt = last mts;
                 os = offsets ! (length mts - 1)
             in case lx_loop (l_x mt) (nat os) [0..<nat w1] l0 of
                  Inl e \<Rightarrow> Inl e
                | Inr l \<Rightarrow> Inr \<lparr>l_x = l, q_x = calc_q_x l, e_x = calc_e_x l, w = w1\<rparr>)"

section \<open>Actuarial\<close>

text \<open>
  \<open>Actuarial\<close> derives from \<open>Pers\<close>. Its constructor takes a float (then the
  rate is that constant at every age) or a callable from ages to rates, taken
  here to be a pure function that returns a float at every age.
\<close>

datatype rate_arg = Float real | Callable "nat \<Rightarrow> real"

fun rate_fun :: "rate_arg \<Rightarrow> nat \<Rightarrow> real" where
  "rate_fun (Float r) = (\<lambda>age. r)"
| "rate_fun (Callable f) = f"

record Actuarial = life +
  rate :: "nat \<Rightarrow> real"
  D_x :: "real list"
  N_x :: "real list"
  C_x :: "complex list"
  M_x :: "complex list"

text \<open>
  The loop building \<open>D_x\<close>: \<open>((1 / (1 + i)) ** age) * j\<close> for each \<open>j\<close> of
  \<open>l_x\<close>, with \<open>i = rate(age)\<close>. The division raises at \<open>i = -1\<close>.
\<close>

fun Dx_loop :: "(nat \<Rightarrow> real) \<Rightarrow> nat \<Rightarrow> real list \<Rightarrow> py_error + real list" where
  "Dx_loop r age [] = Inr []"
| "Dx_loop r age (j # js) =
     (if 1 + r age = 0 then Inl ZeroDivisionError
      else (case Dx_loop r (Suc age) js of
              Inl e \<Rightarrow> Inl e
            | Inr ds \<Rightarrow> Inr (((1 / (1 + r age)) ^ age * j) # ds)))"

text \<open>
  \<open>[sum(xs[k:]) for k in range(0, len(xs))]\<close>, used for \<open>N_x\<close> and \<open>M_x\<close>.
  Each entry is a sum of its own. Here the additions are exact; the code adds floats,
  and which float a sum rounds to depends on the order of the additions and on the
  summation algorithm of the Python version. No statement about the program below
  depends on the value of such a sum, only on its being a number.
\<close>

definition tail_sums :: "'a::monoid_add list \<Rightarrow> 'a list" where
  "tail_sums xs = map (\<lambda>k. sum_list (drop k xs)) [0..<length xs]"

text \<open>
  \<open>b ** 0.5\<close> for a float \<open>b\<close>: a float when \<open>b\<close> is not negative; for a negative
  \<open>b\<close> Python 3 returns the complex principal root, which is \<open>\<i>\<close> times the
  root of \<open>-b\<close>.
\<close>

definition pow_half :: "real \<Rightarrow> complex" where
  "pow_half b =
     (if b < 0 then \<i> * complex_of_real ((- b) powr (1 / 2))
      else complex_of_real (b powr (1 / 2)))"

text \<open>
  The loop building \<open>C_x\<close>. It runs over the whole of \<open>l_x\<close>, with \<open>lx0\<close>
  starting at \<open>l_x[0]\<close> and then trailing one element behind \<open>lx1\<close>; \<open>age\<close>
  is already incremented when the rate is read. The product of the first two
  factors is a float; the third makes the entry complex when \<open>1 + i\<close> is negative.
\<close>

fun Cx_loop :: "(nat \<Rightarrow> real) \<Rightarrow> nat \<Rightarrow> real \<Rightarrow> real list \<Rightarrow> py_error + complex list" where
  "Cx_loop r age lx0 [] = Inr []"
| "Cx_loop r age lx0 (lx1 # rest) =
     (if 1 + r age = 0 then Inl ZeroDivisionError
      else (case Cx_loop r (Suc age) lx1 rest of
              Inl e \<Rightarrow> Inl e
            | Inr cs \<Rightarrow>
                Inr ((complex_of_real ((1 / (1 + r age)) ^ (age + 1) * (lx0 - lx1)) *
                      pow_half (1 + r age)) # cs)))"

definition calc_C_x :: "(nat \<Rightarrow> real) \<Rightarrow> real list \<Rightarrow> py_error + complex list" where
  "calc_C_x r l = (case l of [] \<Rightarrow> Inr [] | lx0 # rest \<Rightarrow> Cx_loop r 0 lx0 l)"

definition Actuarial_init :: "rate_arg \<Rightarrow> 'a life_scheme \<Rightarrow> py_error + Actuarial" where
  "Actuarial_init ra pers =
     (let r = rate_fun ra
      in and_then (Dx_loop r 0 (l_x pers)) (\<lambda>ds.
         and_then (calc_C_x r (l_x pers)) (\<lambda>cs.
           Inr \<lparr>l_x = l_x pers, q_x = q_x pers, e_x = e_x pers, w = w pers,
                rate = r, D_x = ds, N_x = tail_sums ds, C_x = cs, M_x = tail_sums cs\<rparr>)))"

subsection \<open>Commutation accessors\<close>

definition Dx :: "Actuarial \<Rightarrow> int \<Rightarrow> py_error + real" where
  "Dx a x = (if x < int (length (D_x a)) then getitem (D_x a) x else Inr 0)"

definition Nx :: "Actuarial \<Rightarrow> int \<Rightarrow> py_error + real" where
  "Nx a x = (if x < int (length (N_x a)) then getitem (N_x a) x else Inr 0)"

definition Sx :: "Actuarial \<Rightarrow> int \<Rightarrow> py_error + real" where
  "Sx a x = Inr (sum_list (slice_from (N_x a) x))"

definition Cx :: "Actuarial \<Rightarrow> int \<Rightarrow> py_error + complex" where
  "Cx a x = (if x < int (length (C_x a)) then getitem (C_x a) x else Inr 0)"

definition Mx :: "Actuarial \<Rightarrow> int \<Rightarrow> py_error + complex" where
  "Mx a x = (if x < int (length (M_x a)) then getitem (M_x a) x else Inr 0)"


subsection \<open>Insurance formulas\<close>

text \<open>
  Operands are evaluated left to right, the division last. A formula over \<open>M_x\<close>
  divides a complex number by the float \<open>D(x)\<close>.
\<close>

definition nEx :: "Actuarial \<Rightarrow> int \<Rightarrow> int \<Rightarrow> py_error + real" where
  "nEx a x n = and_then (Dx a (x + n)) (\<lambda>u. and_then (Dx a x) (\<lambda>d. truediv u d))"


definition Axn :: "Actuarial \<Rightarrow> int \<Rightarrow> int \<Rightarrow> py_error + complex" where
  "Axn a x n =
     and_then (Mx a x) (\<lambda>u. and_then (Mx a (x + n)) (\<lambda>v.
     and_then (Dx a x) (\<lambda>d. truediv (u - v) (complex_of_real d))))"


definition AExn :: "Actuarial \<Rightarrow> int \<Rightarrow> int \<Rightarrow> py_error + complex" where
  "AExn a x n =
     and_then (Axn a x n) (\<lambda>u. and_then (nEx a x n) (\<lambda>v. Inr (u + complex_of_real v)))"

subsection \<open>Discrete life annuities\<close>

text \<open>
  \<open>float(m-1)/float(m*2)\<close>, the fractional-payment weight: the two conversions,
  then the division.
\<close>

definition frac :: "int \<Rightarrow> py_error + real" where
  "frac m = and_then (py_float (m - 1)) (\<lambda>u. and_then (py_float (m * 2)) (\<lambda>v. truediv u v))"

definition aaxn :: "Actuarial \<Rightarrow> int \<Rightarrow> int \<Rightarrow> int \<Rightarrow> py_error + real" where
  "aaxn a x n m =
     and_then (Dx a x) (\<lambda>d.
     and_then (if d > 0
               then and_then (Nx a x) (\<lambda>u. and_then (Nx a (x + n)) (\<lambda>v. truediv (u - v) d))
               else Inr 1) (\<lambda>res.
       if m = 1 then Inr res
       else and_then (frac m) (\<lambda>f. and_then (nEx a x n) (\<lambda>e. Inr (res - f * (1 - e))))))"

definition axn :: "Actuarial \<Rightarrow> int \<Rightarrow> int \<Rightarrow> int \<Rightarrow> py_error + real" where
  "axn a x n m =
     and_then (Dx a x) (\<lambda>d.
     and_then (if d > 0
               then and_then (Nx a (x + 1)) (\<lambda>u. and_then (Nx a (x + n + 1)) (\<lambda>v. truediv (u - v) d))
               else Inr 0) (\<lambda>res.
       if m = 1 then Inr res
       else and_then (frac m) (\<lambda>f. and_then (nEx a x n) (\<lambda>e. Inr (res + f * (1 - e))))))"

definition aax :: "Actuarial \<Rightarrow> int \<Rightarrow> int \<Rightarrow> py_error + real" where
  "aax a x m =
     and_then (Dx a x) (\<lambda>d.
     and_then (if d > 0 then and_then (Nx a x) (\<lambda>u. truediv u d) else Inr 1) (\<lambda>res.
       if m = 1 then Inr res
       else and_then (frac m) (\<lambda>f. Inr (res - f))))"

definition ax :: "Actuarial \<Rightarrow> int \<Rightarrow> int \<Rightarrow> py_error + real" where
  "ax a x m =
     and_then (Dx a x) (\<lambda>d.
     and_then (if d > 0 then and_then (Nx a (x + 1)) (\<lambda>u. truediv u d) else Inr 0) (\<lambda>res.
       if m = 1 then Inr res
       else and_then (frac m) (\<lambda>f. Inr (res + f))))"

definition taax :: "Actuarial \<Rightarrow> int \<Rightarrow> int \<Rightarrow> int \<Rightarrow> py_error + real" where
  "taax a x t m =
     and_then (Dx a x) (\<lambda>d.
     and_then (if d > 0 then and_then (Nx a (x + t)) (\<lambda>u. truediv u d)
               else Inr (if t = 0 then 1 else 0)) (\<lambda>res.
       if m = 1 then Inr res
       else and_then (frac m) (\<lambda>f. and_then (nEx a x t) (\<lambda>e. Inr (res - f * (1 - e))))))"

definition tax :: "Actuarial \<Rightarrow> int \<Rightarrow> int \<Rightarrow> int \<Rightarrow> py_error + real" where
  "tax a x t m =
     and_then (Dx a x) (\<lambda>d.
     and_then (if d > 0 then and_then (Nx a (x + t + 1)) (\<lambda>u. truediv u d) else Inr 0) (\<lambda>res.
       if m = 1 then Inr res
       else and_then (frac m) (\<lambda>f. and_then (nEx a x t) (\<lambda>e. Inr (res + f * (1 - e))))))"

subsection \<open>Arithmetically increasing annuities and the class namespace\<close>

text \<open>
  A method returns a float or, when its body is \<open>pass\<close>, \<open>None\<close>.
\<close>

datatype py_value = NoneValue | FloatValue real

definition returns :: "py_error + real \<Rightarrow> py_error + py_value" where
  "returns r = and_then r (\<lambda>v. Inr (FloatValue v))"

text \<open>
  The class body defines \<open>Iaaxn\<close> and \<open>Iaxn\<close> twice. The first pair of bodies
  (source lines 432 to 438): \<open>Iaaxn\<close> reads \<open>self.N_x[x+n]\<close>; \<open>Iaxn\<close> calls
  the list \<open>self.N_x\<close>, which raises \<open>TypeError\<close> once the two \<open>Sx\<close> values
  have been computed.
\<close>

definition Iaaxn_formula :: "Actuarial \<Rightarrow> int \<Rightarrow> int \<Rightarrow> py_error + py_value" where
  "Iaaxn_formula a x n =
     returns (and_then (Sx a x) (\<lambda>s0. and_then (Sx a (x + n)) (\<lambda>s1.
              and_then (getitem (N_x a) (x + n)) (\<lambda>v.
              and_then (Dx a x) (\<lambda>d. truediv (s0 - s1 - real_of_int n * v) d)))))"

definition Iaxn_formula :: "Actuarial \<Rightarrow> int \<Rightarrow> int \<Rightarrow> py_error + py_value" where
  "Iaxn_formula a x n =
     returns (and_then (Sx a (x + 1)) (\<lambda>s0. and_then (Sx a (x + n + 1)) (\<lambda>s1.
              Inl TypeError)))"

text \<open>The second pair of bodies (source lines 452 to 456) is \<open>pass\<close>.\<close>

definition Iaaxn_pass :: "Actuarial \<Rightarrow> int \<Rightarrow> int \<Rightarrow> py_error + py_value" where
  "Iaaxn_pass a x n = Inr NoneValue"

definition Iaxn_pass :: "Actuarial \<Rightarrow> int \<Rightarrow> int \<Rightarrow> py_error + py_value" where
  "Iaxn_pass a x n = Inr NoneValue"

definition Itaax :: "Actuarial \<Rightarrow> int \<Rightarrow> int \<Rightarrow> py_error + real" where
  "Itaax a x t =
     and_then (Sx a x) (\<lambda>s0. and_then (Sx a (x + t)) (\<lambda>s1.
     and_then (Dx a x) (\<lambda>d. truediv (s0 - s1) d)))"

definition Itax :: "Actuarial \<Rightarrow> int \<Rightarrow> int \<Rightarrow> py_error + real" where
  "Itax a x t =
     and_then (Sx a (x + 1)) (\<lambda>s0. and_then (Sx a (x + t + 1)) (\<lambda>s1.
     and_then (Dx a x) (\<lambda>d. truediv (s0 - s1) d)))"

text \<open>
  The \<open>def\<close> statements of this part of the class body that take an age and a
  term, in source order. Executing a class body binds each name in turn in the
  class namespace, so a later \<open>def\<close> of a name replaces the earlier one; a call
  looks the name up in the finished namespace.
\<close>

definition increasing_annuity_defs ::
  "(string \<times> (Actuarial \<Rightarrow> int \<Rightarrow> int \<Rightarrow> py_error + py_value)) list" where
  "increasing_annuity_defs =
     [(''Iaaxn'', Iaaxn_formula),
      (''Iaxn'', Iaxn_formula),
      (''Iaaxn'', Iaaxn_pass),
      (''Iaxn'', Iaxn_pass),
      (''Itaax'', \<lambda>a x t. returns (Itaax a x t)),
      (''Itax'', \<lambda>a x t. returns (Itax a x t))]"

definition class_namespace ::
  "(string \<times> 'f) list \<Rightarrow> string \<rightharpoonup> 'f" where
  "class_namespace defs = fold (\<lambda>(name, body) ns. ns(name \<mapsto> body)) defs Map.empty"

definition call_method :: "string \<Rightarrow> Actuarial \<Rightarrow> int \<Rightarrow> int \<Rightarrow> py_error + py_value" where
  "call_method name a x n =
     (case class_namespace increasing_annuity_defs name of
        None \<Rightarrow> Inl AttributeError
      | Some body \<Rightarrow> body a x n)"

definition Iaaxn :: "Actuarial \<Rightarrow> int \<Rightarrow> int \<Rightarrow> py_error + py_value" where
  "Iaaxn = call_method ''Iaaxn''"

definition Iaxn :: "Actuarial \<Rightarrow> int \<Rightarrow> int \<Rightarrow> py_error + py_value" where
  "Iaxn = call_method ''Iaxn''"

section \<open>Auxiliary definitions for the statements\<close>

text \<open>A call returns a value instead of raising.\<close>

definition succeeds :: "py_error + 'a \<Rightarrow> bool" where
  "succeeds r = (case r of Inl e \<Rightarrow> False | Inr v \<Rightarrow> True)"

text \<open>What an accessor guarded by \<open>x < len(xs)\<close> returns at a non-negative age.\<close>

definition lookup0 :: "'a::zero list \<Rightarrow> int \<Rightarrow> 'a" where
  "lookup0 xs x = (if nat x < length xs then xs ! nat x else 0)"

text \<open>
  The discounted deaths as the specification words them: the deaths between ages
  \<open>x\<close> and \<open>x + 1\<close>, discounted to age 0 with the half-year adjustment.
\<close>

definition C_spec :: "(nat \<Rightarrow> real) \<Rightarrow> real list \<Rightarrow> nat \<Rightarrow> real" where
  "C_spec r l x = (1 / (1 + r x)) ^ (x + 1) * (l ! x - l ! (x + 1)) * ((1 + r x) powr (1 / 2))"

text \<open>
  The joint survivor curve as the specification words it: the product over all
  lives of the survivor counts at the aligned ages, an index out of range
  contributing 0.
\<close>

definition l_combined_spec :: "(real list \<times> nat) list \<Rightarrow> nat \<Rightarrow> real" where
  "l_combined_spec lives t =
     prod_list (map (\<lambda>(l, os). if t + os < length l then l ! (t + os) else 0) lives)"

text \<open>
  A worked example: the table built from the survivor counts \<open>[100, 50]\<close>, and the
  commutation values at the constant rate \<open>0.0\<close> over it.
\<close>

definition example_table :: MortalityTable where
  "example_table = \<lparr>l_x = [100, 50, 0], q_x = [], e_x = [], w = 1, perc = 100, nt = None\<rparr>"

definition example_actuarial :: Actuarial where
  "example_actuarial =
     \<lparr>l_x = [100, 50, 0], q_x = [], e_x = [], w = 1, rate = (\<lambda>age. 0),
      D_x = [100, 50, 0], N_x = [150, 50, 0], C_x = [0, 50, 50], M_x = [100, 100, 50]\<rparr>"

text \<open>Three further tables, for three lives of the same age.\<close>

definition table_a :: MortalityTable where
  "table_a = \<lparr>l_x = [4, 2, 0], q_x = [], e_x = [], w = 1, perc = 100, nt = None\<rparr>"

definition table_b :: MortalityTable where
  "table_b = \<lparr>l_x = [3, 1, 0], q_x = [], e_x = [], w = 1, perc = 100, nt = None\<rparr>"

definition table_c :: MortalityTable where
  "table_c = \<lparr>l_x = [5, 2, 0], q_x = [], e_x = [], w = 1, perc = 100, nt = None\<rparr>"

section \<open>Basic facts\<close>

lemma and_then_Inr [simp]: "and_then (Inr v) f = f v"
  by (simp add: and_then_def)

lemma and_then_Inl [simp]: "and_then (Inl e) f = Inl e"
  by (simp add: and_then_def)

lemma and_then_eq_Inr: "and_then r f = Inr y \<longleftrightarrow> (\<exists>v. r = Inr v \<and> f v = Inr y)"
  by (cases r) simp_all

lemma getitem_nonneg: "0 \<le> i \<Longrightarrow> i < int (length xs) \<Longrightarrow> getitem xs i = Inr (xs ! nat i)"
  by (simp add: getitem_def Let_def)

lemma accessor_nonneg:
  assumes "0 \<le> x"
  shows "(if x < int (length xs) then getitem xs x else Inr 0) = Inr (lookup0 xs x)"
  using assms by (auto simp: getitem_nonneg lookup0_def)

subsection \<open>\<open>index\<close>\<close>

lemma index_Inr:
  "index xs v = Inr k \<Longrightarrow> k < length xs \<and> xs ! k = v \<and> (\<forall>j<k. xs ! j \<noteq> v)"
proof (induction xs arbitrary: k)
  case Nil
  then show ?case by simp
next
  case (Cons y ys)
  show ?case
  proof (cases "y = v")
    case True
    with Cons.prems show ?thesis by simp
  next
    case False
    with Cons.prems obtain k' where k': "index ys v = Inr k'" "k = Suc k'"
      by (auto split: sum.splits)
    from Cons.IH [OF k'(1)] have ih: "k' < length ys" "ys ! k' = v" "\<forall>j<k'. ys ! j \<noteq> v"
      by simp_all
    have "\<forall>j<Suc k'. (y # ys) ! j \<noteq> v"
    proof (intro allI impI)
      fix j assume "j < Suc k'"
      then show "(y # ys) ! j \<noteq> v"
        using False ih(3) by (cases j) simp_all
    qed
    then show ?thesis using ih k'(2) by simp
  qed
qed

lemma index_total: "v \<in> set xs \<Longrightarrow> \<exists>k. index xs v = Inr k"
  by (induction xs) auto

subsection \<open>Reverse cumulative sums\<close>

lemma length_tail_sums [simp]: "length (tail_sums xs) = length xs"
  by (simp add: tail_sums_def)

lemma tail_sums_nth: "k < length xs \<Longrightarrow> tail_sums xs ! k = sum_list (drop k xs)"
  by (simp add: tail_sums_def)

lemma tail_sums_step:
  assumes "k < length xs"
  shows "tail_sums xs ! k = xs ! k + (if Suc k < length xs then tail_sums xs ! Suc k else 0)"
proof -
  have "drop k xs = xs ! k # drop (Suc k) xs"
    using assms by (simp add: Cons_nth_drop_Suc)
  then have "sum_list (drop k xs) = xs ! k + sum_list (drop (Suc k) xs)"
    by simp
  then show ?thesis
    using assms by (simp add: tail_sums_nth)
qed

lemma lookup0_tail_sums:
  assumes "0 \<le> x"
  shows "lookup0 (tail_sums xs) x = lookup0 xs x + lookup0 (tail_sums xs) (x + 1)"
proof (cases "nat x < length xs")
  case True
  have "nat (x + 1) = Suc (nat x)" using assms by simp
  then show ?thesis using True tail_sums_step [OF True] by (simp add: lookup0_def)
next
  case False
  have "nat (x + 1) = Suc (nat x)" using assms by simp
  then show ?thesis using False by (simp add: lookup0_def)
qed

subsection \<open>The constructors\<close>

lemma length_lx_from_qx [simp]: "length (lx_from_qx prev qs) = length qs"
  by (induction qs arbitrary: prev) simp_all

lemma lx_from_qx_step:
  "k < length qs \<Longrightarrow>
     (prev # lx_from_qx prev qs) ! Suc k = (prev # lx_from_qx prev qs) ! k * (1 - qs ! k / 1000)"
proof (induction qs arbitrary: prev k)
  case Nil
  then show ?case by simp
next
  case (Cons v vs)
  show ?case
  proof (cases k)
    case 0
    then show ?thesis by simp
  next
    case (Suc k')
    then have "k' < length vs" using Cons.prems by simp
    from Cons.IH [OF this, of "prev * (1 - v / 1000)"] show ?thesis
      by (simp add: Suc)
  qed
qed

lemma close_table_has_zero:
  assumes "l \<noteq> []"
  shows "0 \<in> set (close_table l)"
proof (cases "last l = 0")
  case True
  then show ?thesis using last_in_set [OF assms] by (simp add: close_table_def)
next
  case False
  then show ?thesis by (simp add: close_table_def)
qed

lemma MortalityTable_init_index:
  assumes "MortalityTable_init l q n p = Inr mt"
  shows "\<exists>k. index (l_x mt) 0 = Inr k \<and> w mt = int k - 1"
  using assms by (auto simp: MortalityTable_init_def Let_def split: sum.splits)

lemma Actuarial_init_sums:
  assumes "Actuarial_init ra pers = Inr a"
  shows "N_x a = tail_sums (D_x a)" and "M_x a = tail_sums (C_x a)"
  using assms by (auto simp: Actuarial_init_def Let_def and_then_eq_Inr)

lemma example_table_built: "MortalityTable_init [100, 50] [] None 100 = Inr example_table"
  by (simp add: MortalityTable_init_def close_table_def example_table_def)

lemma example_actuarial_built: "Actuarial_init (Float 0) example_table = Inr example_actuarial"
  by (simp add: Actuarial_init_def calc_C_x_def pow_half_def tail_sums_def example_table_def
      example_actuarial_def upt_rec [of 0])

lemma tables_built:
  "MortalityTable_init [4, 2] [] None 100 = Inr table_a"
  "MortalityTable_init [3, 1] [] None 100 = Inr table_b"
  "MortalityTable_init [5, 2] [] None 100 = Inr table_c"
  by (simp_all add: MortalityTable_init_def close_table_def table_a_def table_b_def table_c_def)

subsection \<open>Accessors and formulas at a non-negative age\<close>

lemma succeeds_simps [simp]: "succeeds (Inr v)" "\<not> succeeds (Inl e)"
  by (simp_all add: succeeds_def)

lemma Dx_loop_length: "Dx_loop r age l = Inr ds \<Longrightarrow> length ds = length l"
  by (induction l arbitrary: age ds) (auto split: if_splits sum.splits)

lemma Cx_loop_length: "Cx_loop r age lx0 l = Inr cs \<Longrightarrow> length cs = length l"
  by (induction l arbitrary: age lx0 cs) (auto split: if_splits sum.splits)

lemma calc_C_x_length:
  assumes "calc_C_x r l = Inr cs"
  shows "length cs = length l"
proof (cases l)
  case Nil
  then show ?thesis using assms by (simp add: calc_C_x_def)
next
  case (Cons lx0 rest)
  then have "Cx_loop r 0 lx0 l = Inr cs" using assms by (simp add: calc_C_x_def)
  then show ?thesis by (rule Cx_loop_length)
qed


lemma accessors_nonneg:
  assumes "0 \<le> x"
  shows "Dx a x = Inr (lookup0 (D_x a) x)" and "Nx a x = Inr (lookup0 (N_x a) x)"
    and "Cx a x = Inr (lookup0 (C_x a) x)" and "Mx a x = Inr (lookup0 (M_x a) x)"
  by (simp_all add: Dx_def Nx_def Cx_def Mx_def accessor_nonneg [OF assms])




lemma py_float_in_range: "\<bar>k\<bar> < float_limit \<Longrightarrow> py_float k = Inr (real_of_int k)"
  by (simp add: py_float_def)


lemma frac_succeeds:
  assumes "1 \<le> m" and "m * 2 < float_limit"
  shows "frac m = Inr (real_of_int (m - 1) / real_of_int (m * 2))"
proof -
  have "\<bar>m - 1\<bar> < float_limit" and "\<bar>m * 2\<bar> < float_limit"
    using assms by linarith+
  then have "py_float (m - 1) = Inr (real_of_int (m - 1))"
    and "py_float (m * 2) = Inr (real_of_int (m * 2))"
    by (simp_all add: py_float_in_range)
  then show ?thesis using assms(1) by (simp add: frac_def truediv_def)
qed










lemma example_values:
  "Dx example_actuarial 0 = Inr 100" "Dx example_actuarial 5 = Inr 0"
  "Dx example_actuarial 2 = Inr 0" "Dx example_actuarial 1 = Inr 50"
  "l_x example_actuarial = [100, 50, 0]"
  by (simp_all add: Dx_def getitem_def example_actuarial_def)

subsection \<open>The entries of the commutation sequences\<close>

lemma Dx_loop_nth:
  "Dx_loop r age l = Inr ds \<Longrightarrow> k < length l \<Longrightarrow>
     ds ! k = (1 / (1 + r (age + k))) ^ (age + k) * l ! k"
proof (induction l arbitrary: age ds k)
  case Nil
  then show ?case by simp
next
  case (Cons j js)
  from Cons.prems(1) obtain ds' where ds': "Dx_loop r (Suc age) js = Inr ds'"
    and ds: "ds = ((1 / (1 + r age)) ^ age * j) # ds'"
    by (auto split: if_splits sum.splits)
  show ?case
  proof (cases k)
    case 0
    then show ?thesis by (simp add: ds)
  next
    case (Suc k')
    then have "k' < length js" using Cons.prems(2) by simp
    from Cons.IH [OF ds' this] show ?thesis by (simp add: ds Suc)
  qed
qed

lemma Cx_loop_nth:
  "Cx_loop r age lx0 l = Inr cs \<Longrightarrow> k < length l \<Longrightarrow>
     cs ! k = complex_of_real ((1 / (1 + r (age + k))) ^ (age + k + 1) *
                               ((if k = 0 then lx0 else l ! (k - 1)) - l ! k)) *
              pow_half (1 + r (age + k))"
proof (induction l arbitrary: age lx0 cs k)
  case Nil
  then show ?case by simp
next
  case (Cons lx1 rest)
  from Cons.prems(1) obtain cs' where cs': "Cx_loop r (Suc age) lx1 rest = Inr cs'"
    and cs: "cs = (complex_of_real ((1 / (1 + r age)) ^ (age + 1) * (lx0 - lx1)) *
                   pow_half (1 + r age)) # cs'"
    by (simp split: if_splits sum.splits)
  show ?case
  proof (cases k)
    case 0
    then show ?thesis by (simp add: cs)
  next
    case (Suc k')
    then have k': "k' < length rest" using Cons.prems(2) by simp
    from Cons.IH [OF cs' k'] show ?thesis
      by (cases k') (simp_all add: cs Suc)
  qed
qed

lemma Actuarial_init_parts:
  assumes "Actuarial_init ra pers = Inr a"
  shows "Dx_loop (rate a) 0 (l_x a) = Inr (D_x a)" and "calc_C_x (rate a) (l_x a) = Inr (C_x a)"
  using assms by (auto simp: Actuarial_init_def Let_def and_then_eq_Inr)

lemma example_age_in_table: "(1::nat) < length (l_x example_actuarial)"
  by (simp add: example_actuarial_def)

lemma example_insurances:
  "Axn example_actuarial 0 1 = Inr 0" "nEx example_actuarial 0 1 = Inr (1 / 2)"
  by (simp_all add: Axn_def nEx_def Mx_def Dx_def truediv_def getitem_def example_actuarial_def)

section \<open>The joint-life combiner\<close>

text \<open>
  Claim C1 says that \<open>Pers\<close> builds the combined survivor curve as the product of
  all K aligned curves, for every age \<open>t\<close> from 0 to \<open>w\<close>. The code multiplies
  only once, by the last table of the list, and only below \<open>w\<close>: the loop over the
  ages stands after the loop over the tables instead of inside it. For the three
  lives of equal age with tables \<open>[4, 2, 0]\<close>, \<open>[3, 1, 0]\<close> and \<open>[5, 2, 0]\<close> the
  claim's product is 60 at age 0 and 4 at age 1 = \<open>w\<close>; the code leaves 20 and 2.
\<close>

theorem Pers_three_lives_not_product:
  "MortalityTable_init [4, 2] [] None 100 = Inr table_a \<and>
   MortalityTable_init [3, 1] [] None 100 = Inr table_b \<and>
   MortalityTable_init [5, 2] [] None 100 = Inr table_c \<and>
   Pers_init [table_a, table_b, table_c] [0, 0, 0] =
     Inr \<lparr>l_x = [20, 2, 0, 0], q_x = [900, 1000, 1], e_x = [3 / 5, 1 / 2, 1 / 2], w = 1\<rparr> \<and>
   l_combined_spec [(l_x table_a, 0), (l_x table_b, 0), (l_x table_c, 0)] 0 = 60 \<and>
   l_combined_spec [(l_x table_a, 0), (l_x table_b, 0), (l_x table_c, 0)] 1 = 4"
  by (simp add: tables_built Pers_init_def table_a_def table_b_def table_c_def slice_from_def
      calc_q_x_def calc_e_x_def l_combined_spec_def Let_def)

text \<open>
  Claim C4 says that \<open>Pers\<close> over exactly one table with age offset 0 is a
  pass-through copy of the table's \<open>l_x\<close>, with \<open>q_x\<close> and \<open>e_x\<close> derived from the
  unchanged curve. With one table the age loop still runs, with that same table
  as multiplier: every entry below \<open>w\<close> is squared and one 0 is appended per
  iteration. From the table \<open>[100, 50, 0]\<close> the code builds
  \<open>[10000, 50, 0, 0]\<close>, and a death rate of 995 per mille where the table has 500.
\<close>

theorem Pers_single_life_not_copy:
  "MortalityTable_init [100, 50] [] None 100 = Inr example_table \<and>
   l_x example_table = [100, 50, 0] \<and>
   Pers_init [example_table] [0] =
     Inr \<lparr>l_x = [10000, 50, 0, 0], q_x = [995, 1000, 1],
          e_x = [101 / 200, 1 / 2, 1 / 2], w = 1\<rparr>"
  by (simp add: example_table_built Pers_init_def example_table_def slice_from_def
      calc_q_x_def calc_e_x_def Let_def)

section \<open>The mortality table\<close>

text \<open>
  Claim C2 says that \<open>w\<close> of a constructed \<open>MortalityTable\<close> is the smallest index
  at which the survivor sequence is zero. The constructor sets \<open>w\<close> to that index
  minus one. What holds instead: \<open>w + 1\<close> is the smallest index holding a zero, so
  \<open>l[w + 1] = 0\<close> and \<open>l[x]\<close> is not zero for every age \<open>x\<close> from 0 to \<open>w\<close>, and is
  positive there when the sequence has no negative entry.
\<close>

theorem MortalityTable_w_last_nonzero_age:
  assumes "MortalityTable_init l q n p = Inr mt"
  shows "- 1 \<le> w mt \<and> getitem (l_x mt) (w mt + 1) = Inr 0 \<and>
         (\<forall>x. 0 \<le> x \<and> x \<le> w mt \<longrightarrow>
            (\<exists>v. getitem (l_x mt) x = Inr v \<and> v \<noteq> 0 \<and>
                 (list_all (\<lambda>u. 0 \<le> u) (l_x mt) \<longrightarrow> 0 < v)))"
proof -
  obtain k where k: "index (l_x mt) 0 = Inr k" "w mt = int k - 1"
    using MortalityTable_init_index [OF assms] by blast
  from index_Inr [OF k(1)]
  have ix: "k < length (l_x mt)" "l_x mt ! k = 0" "\<forall>j<k. l_x mt ! j \<noteq> 0"
    by simp_all
  have a: "- 1 \<le> w mt" using k(2) by simp
  have b: "getitem (l_x mt) (w mt + 1) = Inr 0"
    using k(2) ix(1,2) by (simp add: getitem_def Let_def)
  have c: "\<exists>v. getitem (l_x mt) x = Inr v \<and> v \<noteq> 0 \<and>
             (list_all (\<lambda>u. 0 \<le> u) (l_x mt) \<longrightarrow> 0 < v)"
    if x: "0 \<le> x \<and> x \<le> w mt" for x
  proof -
    have lt: "nat x < k" using x k(2) by linarith
    then have len: "nat x < length (l_x mt)" using ix(1) by simp
    have g: "getitem (l_x mt) x = Inr (l_x mt ! nat x)"
      using x len by (simp add: getitem_def Let_def)
    have nz: "l_x mt ! nat x \<noteq> 0" using ix(3) lt by simp
    have pos: "0 < l_x mt ! nat x" if "list_all (\<lambda>u. 0 \<le> u) (l_x mt)"
    proof -
      have "0 \<le> l_x mt ! nat x"
        using that len by (simp add: list_all_length)
      then show ?thesis using nz by simp
    qed
    show ?thesis using g nz pos by simp
  qed
  show ?thesis using a b c by blast
qed

theorem MortalityTable_w_last_nonzero_age_witness:
  "MortalityTable_init [100, 50] [] None 100 = Inr example_table \<and>
   w example_table = 1 \<and>
   getitem (l_x example_table) 2 = Inr 0 \<and>
   getitem (l_x example_table) 1 = Inr 50 \<and>
   list_all (\<lambda>u. 0 \<le> u) (l_x example_table)"
  using MortalityTable_w_last_nonzero_age [OF example_table_built] example_table_built
  by (simp add: example_table_def getitem_def)

theorem MortalityTable_w_not_first_zero:
  "MortalityTable_init [100, 50] [] None 100 = Inr example_table \<and>
   getitem (l_x example_table) (w example_table) = Inr 50"
  using example_table_built by (simp add: example_table_def getitem_def)

text \<open>
  Claim C7 says that constructing a \<open>MortalityTable\<close> raises \<open>InvalidTableError\<close>
  exactly on an empty, a negative or a non-monotone input. The constructor checks
  nothing and defines no such error. What holds instead: construction succeeds on
  every input. \<open>q_x\<close> is the given \<open>q_x\<close> (or the rates derived from \<open>nt\<close>). A
  non-empty \<open>l_x\<close> is stored as given, whatever its values, with a 0 appended
  when its last value is not 0. An empty \<open>l_x\<close> is replaced by the survivors
  derived from \<open>q_x\<close>: they start at 100000, each next one is the previous one
  times \<open>1 - q_x[k] / 1000\<close>, and again a 0 is appended when the last is not 0.
\<close>

theorem MortalityTable_init_never_raises:
  "\<exists>mt. MortalityTable_init l q n p = Inr mt \<and>
        q_x mt = (case n of None \<Rightarrow> q | Some (init, vals) \<Rightarrow> nt_q_x p init vals) \<and>
        e_x mt = [] \<and> perc mt = p \<and> nt mt = n \<and>
        (l \<noteq> [] \<longrightarrow> l_x mt = (if last l = 0 then l else l @ [0])) \<and>
        (l = [] \<longrightarrow>
           (\<exists>d. l_x mt = (if last d = 0 then d else d @ [0]) \<and>
                length d = Suc (length (q_x mt)) \<and> d ! 0 = 100000 \<and>
                (\<forall>k<length (q_x mt). d ! Suc k = d ! k * (1 - q_x mt ! k / 1000))))"
proof -
  define q1 where "q1 = (case n of None \<Rightarrow> q | Some (init, vals) \<Rightarrow> nt_q_x p init vals)"
  define d where "d = 100000 # lx_from_qx 100000 q1"
  define l1 where "l1 = (if l = [] then d else l)"
  have "l1 \<noteq> []" by (simp add: l1_def d_def)
  then obtain k where k: "index (close_table l1) 0 = Inr k"
    using index_total [OF close_table_has_zero] by blast
  define mt where
    "mt = \<lparr>l_x = close_table l1, q_x = q1, e_x = [], w = int k - 1, perc = p, nt = n\<rparr>"
  have "MortalityTable_init l q n p =
      (case index (close_table l1) 0 of
         Inl e \<Rightarrow> Inl e
       | Inr k \<Rightarrow> Inr \<lparr>l_x = close_table l1, q_x = q1, e_x = [], w = int k - 1,
                         perc = p, nt = n\<rparr>)"
    unfolding MortalityTable_init_def Let_def q1_def l1_def d_def by (rule refl)
  then have built: "MortalityTable_init l q n p = Inr mt"
    by (simp add: k mt_def)
  have fields: "q_x mt = q1" "e_x mt = []" "perc mt = p" "nt mt = n"
    by (simp_all add: mt_def)
  have given: "l_x mt = (if last l = 0 then l else l @ [0])" if "l \<noteq> []"
    using that by (simp add: mt_def l1_def close_table_def)
  have derived: "l_x mt = (if last d = 0 then d else d @ [0]) \<and>
      length d = Suc (length (q_x mt)) \<and> d ! 0 = 100000 \<and>
      (\<forall>k<length (q_x mt). d ! Suc k = d ! k * (1 - q_x mt ! k / 1000))" if "l = []"
  proof -
    have "l_x mt = (if last d = 0 then d else d @ [0])"
      using that by (simp add: mt_def l1_def close_table_def)
    moreover have "length d = Suc (length (q_x mt))" "d ! 0 = 100000"
      by (simp_all add: d_def fields)
    moreover have "\<forall>k<length (q_x mt). d ! Suc k = d ! k * (1 - q_x mt ! k / 1000)"
      unfolding d_def fields using lx_from_qx_step by blast
    ultimately show ?thesis by blast
  qed
  show ?thesis
    using built fields given derived unfolding q1_def by blast
qed

theorem MortalityTable_init_never_raises_witness:
  "(\<exists>mt. MortalityTable_init [5, - 1] [] None 100 = Inr mt \<and>
         l_x mt = [5, - 1, 0] \<and> q_x mt = []) \<and>
   (\<exists>mt. MortalityTable_init [] [500] None 100 = Inr mt \<and>
         l_x mt = [100000, 50000, 0] \<and> q_x mt = [500])"
proof -
  have "\<exists>mt. MortalityTable_init [5, - 1] [] None 100 = Inr mt \<and>
         l_x mt = [5, - 1, 0] \<and> q_x mt = []"
    using MortalityTable_init_never_raises [of "[5, - 1]" "[]" None 100] by auto
  moreover have "MortalityTable_init [] [500] None 100 =
      Inr \<lparr>l_x = [100000, 50000, 0], q_x = [500], e_x = [], w = 1, perc = 100, nt = None\<rparr>"
    by (simp add: MortalityTable_init_def close_table_def)
  then have "\<exists>mt. MortalityTable_init [] [500] None 100 = Inr mt \<and>
         l_x mt = [100000, 50000, 0] \<and> q_x mt = [500]"
    by simp
  ultimately show ?thesis by blast
qed

theorem MortalityTable_init_accepts_malformed:
  "MortalityTable_init [] [] None 100 =
     Inr \<lparr>l_x = [100000, 0], q_x = [], e_x = [], w = 0, perc = 100, nt = None\<rparr> \<and>
   MortalityTable_init [5, - 1] [] None 100 =
     Inr \<lparr>l_x = [5, - 1, 0], q_x = [], e_x = [], w = 1, perc = 100, nt = None\<rparr> \<and>
   MortalityTable_init [1, 2] [] None 100 =
     Inr \<lparr>l_x = [1, 2, 0], q_x = [], e_x = [], w = 1, perc = 100, nt = None\<rparr>"
  by (simp add: MortalityTable_init_def close_table_def)

section \<open>The commutation sequences\<close>

text \<open>
  Claim C3 says that \<open>C[x]\<close> is built from the deaths between ages \<open>x\<close> and
  \<open>x + 1\<close>: \<open>C[x] = v(x)^(x+1) * (l[x] - l[x+1]) * (1 + rate(x))^0.5\<close>. The loop
  of the constructor starts its previous value at \<open>l_x[0]\<close> and then runs over all
  of \<open>l_x\<close>, so that \<open>C_x[x]\<close> holds the deaths between ages \<open>x - 1\<close> and \<open>x\<close>,
  and \<open>C_x[0]\<close> is 0. Over the table \<open>[100, 50, 0]\<close> at rate 0 the claim's value
  at age 0 is 50; the code stores 0.
\<close>

theorem Cx_shifted_by_one_age:
  "Actuarial_init (Float 0) example_table = Inr example_actuarial \<and>
   C_x example_actuarial = [0, 50, 50] \<and>
   Cx example_actuarial 0 = Inr 0 \<and>
   C_spec (rate example_actuarial) (l_x example_actuarial) 0 = 50"
  by (simp add: example_actuarial_built C_spec_def example_actuarial_def Cx_def getitem_def)

text \<open>
  Claim C8 is the telescoping of the reverse cumulative sums, \<open>N[x] = D[x] + N[x+1]\<close>
  and \<open>M[x] = C[x] + M[x+1]\<close>, as exact equalities. The constructor does not build
  \<open>N_x[x]\<close> from \<open>N_x[x+1]\<close>: every entry is a floating-point sum of its own, and
  whether two such sums agree to the last bit depends on the rounding of each
  addition and on the summation algorithm of the Python version. That is outside
  this embedding, so the claim is not settled here. The lemma below is about the
  exact sums only: in exact arithmetic the identities hold at every age \<open>x \<ge> 0\<close>.
\<close>

lemma tail_sums_telescope_exact:
  assumes "Actuarial_init ra pers = Inr a" and "0 \<le> x"
  shows "\<exists>d n0 n1 c m0 m1.
           Dx a x = Inr d \<and> Nx a x = Inr n0 \<and> Nx a (x + 1) = Inr n1 \<and> n0 = d + n1 \<and>
           Cx a x = Inr c \<and> Mx a x = Inr m0 \<and> Mx a (x + 1) = Inr m1 \<and> m0 = c + m1"
proof -
  have x1: "0 \<le> x + 1" using assms(2) by simp
  have "lookup0 (N_x a) x = lookup0 (D_x a) x + lookup0 (N_x a) (x + 1)"
    using lookup0_tail_sums [OF assms(2)] Actuarial_init_sums(1) [OF assms(1)] by simp
  moreover have "lookup0 (M_x a) x = lookup0 (C_x a) x + lookup0 (M_x a) (x + 1)"
    using lookup0_tail_sums [OF assms(2)] Actuarial_init_sums(2) [OF assms(1)] by simp
  ultimately show ?thesis
    by (simp add: accessors_nonneg [OF assms(2)] accessors_nonneg [OF x1])
qed

section \<open>The present-value formulas\<close>




text \<open>
  Claim C6 says that at an age with \<open>D(x) = 0\<close> and for every payment frequency
  \<open>m \<ge> 1\<close> the annuity formulas return fixed fallback values. The values are
  those of \<open>m = 1\<close> only. What holds instead at \<open>D(x) = 0\<close>: with \<open>m = 1\<close>,
  \<open>aaxn\<close> and \<open>aax\<close> return 1, \<open>axn\<close>, \<open>ax\<close> and \<open>tax\<close> return 0, and
  \<open>taax\<close> returns 1 when \<open>t = 0\<close> and 0 otherwise; with \<open>m > 1\<close>, as long as
  \<open>float(2m)\<close> exists (\<open>2m < 2^1024 - 2^970\<close>), the whole-life formulas apply their
  fractional-payment term to the fallback: \<open>aax\<close> returns \<open>1 - (m-1)/(2m)\<close> and
  \<open>ax\<close> returns \<open>(m-1)/(2m)\<close>.
\<close>

theorem annuity_fallbacks:
  assumes "Dx a x = Inr 0" and "1 < m" and "m * 2 < float_limit"
  shows "aaxn a x n 1 = Inr 1 \<and> aax a x 1 = Inr 1 \<and>
         axn a x n 1 = Inr 0 \<and> ax a x 1 = Inr 0 \<and> tax a x t 1 = Inr 0 \<and>
         taax a x t 1 = Inr (if t = 0 then 1 else 0) \<and>
         aax a x m = Inr (1 - real_of_int (m - 1) / real_of_int (m * 2)) \<and>
         ax a x m = Inr (real_of_int (m - 1) / real_of_int (m * 2))"
proof -
  have m: "1 \<le> m" "m \<noteq> 1" using assms(2) by simp_all
  have f: "frac m = Inr (real_of_int (m - 1) / real_of_int (m * 2))"
    using m(1) assms(3) by (rule frac_succeeds)
  show ?thesis
    using m(2) by (simp add: aaxn_def aax_def axn_def ax_def tax_def taax_def assms(1) f)
qed

theorem annuity_fallbacks_witness:
  "Dx example_actuarial 2 = Inr 0 \<and> (1::int) < 2 \<and> (2::int) * 2 < float_limit \<and>
   aaxn example_actuarial 2 1 1 = Inr 1 \<and> aax example_actuarial 2 1 = Inr 1 \<and>
   axn example_actuarial 2 1 1 = Inr 0 \<and> ax example_actuarial 2 1 = Inr 0 \<and>
   tax example_actuarial 2 1 1 = Inr 0 \<and> taax example_actuarial 2 0 1 = Inr 1 \<and>
   taax example_actuarial 2 1 1 = Inr 0 \<and>
   aax example_actuarial 2 2 = Inr (3 / 4) \<and> ax example_actuarial 2 2 = Inr (1 / 4)"
proof -
  have h: "(1::int) < 2" by simp
  have f: "(2::int) * 2 < float_limit" by (simp add: float_limit_def)
  show ?thesis
    using annuity_fallbacks [OF example_values(3) h f, of 1 1]
      annuity_fallbacks [OF example_values(3) h f, of 1 0] example_values(3) f
    by simp
qed

theorem annuity_fallback_frequency_two:
  "Dx example_actuarial 2 = Inr 0 \<and> (1::int) \<le> 2 \<and>
   aax example_actuarial 2 2 = Inr (3 / 4) \<and> ax example_actuarial 2 2 = Inr (1 / 4) \<and>
   aaxn example_actuarial 2 1 2 = Inl ZeroDivisionError"
  by (simp add: aax_def ax_def aaxn_def nEx_def frac_def py_float_def float_limit_def
      Dx_def Nx_def truediv_def getitem_def example_actuarial_def)

text \<open>
  Claim C9 says that \<open>nEx(x, 0) = 1\<close> for every age \<open>x\<close>. \<open>nEx(x, 0)\<close> is
  \<open>D(x) / D(x)\<close>, with no guard. What holds instead: \<open>nEx(x, 0) = 1\<close> at every
  age where \<open>D(x)\<close> is not 0, and the call raises \<open>ZeroDivisionError\<close> where
  \<open>D(x) = 0\<close>, as at the terminal age of a table and beyond it.
\<close>

theorem nEx_zero_term:
  assumes "Dx a x = Inr d"
  shows "nEx a x 0 = (if d = 0 then Inl ZeroDivisionError else Inr 1)"
  by (simp add: nEx_def truediv_def assms)

theorem nEx_zero_term_witness:
  "Dx example_actuarial 0 = Inr 100 \<and> nEx example_actuarial 0 0 = Inr 1"
  using nEx_zero_term [OF example_values(1)] example_values(1) by simp

theorem nEx_zero_term_raises:
  "Actuarial_init (Float 0) example_table = Inr example_actuarial \<and>
   nEx example_actuarial 2 0 = Inl ZeroDivisionError \<and>
   nEx example_actuarial 5 0 = Inl ZeroDivisionError"
  by (simp add: example_actuarial_built nEx_def Dx_def truediv_def getitem_def
      example_actuarial_def)

section \<open>The shadowed increasing annuities\<close>

text \<open>
  Claim C10: for every \<open>Actuarial\<close>, every age \<open>x\<close> and every term \<open>n\<close>,
  \<open>Iaaxn(x, n)\<close> and \<open>Iaxn(x, n)\<close> return \<open>None\<close>: the later \<open>pass\<close> bodies
  replace the earlier formula bodies in the class namespace, so neither call
  ever yields a commutation ratio.
\<close>

theorem Iaaxn_Iaxn_return_None:
  "Iaaxn a x n = Inr NoneValue \<and> Iaxn a x n = Inr NoneValue"
  by (simp add: Iaaxn_def Iaxn_def call_method_def class_namespace_def
      increasing_annuity_defs_def Iaaxn_pass_def Iaxn_pass_def)

section \<open>Further properties of the commutation engine\<close>

text \<open>
  The discounted survivors: for every \<open>Actuarial\<close> and every index \<open>k\<close> of the
  table, \<open>D_x\<close> is as long as \<open>l_x\<close> and \<open>D_x[k] = (1 / (1 + rate(k)))^k * l_x[k]\<close>.
\<close>

theorem D_x_values:
  assumes "Actuarial_init ra pers = Inr a" and "k < length (l_x a)"
  shows "length (D_x a) = length (l_x a) \<and>
         D_x a ! k = (1 / (1 + rate a k)) ^ k * l_x a ! k"
  using Dx_loop_nth [OF Actuarial_init_parts(1) [OF assms(1)] assms(2)]
    Dx_loop_length [OF Actuarial_init_parts(1) [OF assms(1)]]
  by simp

theorem D_x_values_witness:
  "Actuarial_init (Float 0) example_table = Inr example_actuarial \<and>
   (1::nat) < length (l_x example_actuarial) \<and>
   length (D_x example_actuarial) = 3 \<and> D_x example_actuarial ! 1 = 50"
  using D_x_values [OF example_actuarial_built example_age_in_table] example_actuarial_built example_age_in_table
  by (simp add: example_actuarial_def)

text \<open>
  The discounted deaths as the constructor stores them: for every \<open>Actuarial\<close> and
  every index \<open>k\<close> of the table, \<open>C_x\<close> is as long as \<open>l_x\<close>, \<open>C_x[0] = 0\<close>, and
  for \<open>k > 0\<close> the entry \<open>C_x[k]\<close> is
  \<open>(1 / (1 + rate(k)))^(k+1) * (l_x[k-1] - l_x[k]) * (1 + rate(k))^0.5\<close>: the deaths
  of the year before age \<open>k\<close>, with the discount exponent of the year after.
\<close>

theorem C_x_values:
  assumes "Actuarial_init ra pers = Inr a" and "k < length (l_x a)"
  shows "length (C_x a) = length (l_x a) \<and>
         C_x a ! k = complex_of_real ((1 / (1 + rate a k)) ^ (k + 1) *
                                     (if k = 0 then 0 else l_x a ! (k - 1) - l_x a ! k)) *
                     pow_half (1 + rate a k)"
proof -
  note c = Actuarial_init_parts(2) [OF assms(1)]
  obtain lx0 rest where l: "l_x a = lx0 # rest"
    using assms(2) by (cases "l_x a") simp_all
  then have loop: "Cx_loop (rate a) 0 lx0 (l_x a) = Inr (C_x a)"
    using c by (simp add: calc_C_x_def)
  have "C_x a ! k = complex_of_real ((1 / (1 + rate a (0 + k))) ^ (0 + k + 1) *
              ((if k = 0 then lx0 else l_x a ! (k - 1)) - l_x a ! k)) *
              pow_half (1 + rate a (0 + k))"
    using loop assms(2) by (rule Cx_loop_nth)
  moreover have "(if k = 0 then lx0 else l_x a ! (k - 1)) - l_x a ! k
        = (if k = 0 then 0 else l_x a ! (k - 1) - l_x a ! k)"
    by (simp add: l)
  ultimately show ?thesis using calc_C_x_length [OF c] by simp
qed

theorem C_x_values_witness:
  "Actuarial_init (Float 0) example_table = Inr example_actuarial \<and>
   (1::nat) < length (l_x example_actuarial) \<and>
   length (C_x example_actuarial) = 3 \<and> C_x example_actuarial ! 1 = 50"
  using C_x_values [OF example_actuarial_built example_age_in_table] example_actuarial_built
    example_age_in_table
  by (simp add: example_actuarial_def)

text \<open>
  The endowment insurance is the sum of the term insurance and the pure endowment:
  whenever \<open>Axn(x, n)\<close> and \<open>nEx(x, n)\<close> return values, \<open>AExn(x, n)\<close> returns
  their sum.
\<close>

theorem AExn_is_sum:
  assumes "Axn a x n = Inr u" and "nEx a x n = Inr v"
  shows "AExn a x n = Inr (u + complex_of_real v)"
  by (simp add: AExn_def assms)

theorem AExn_is_sum_witness:
  "Axn example_actuarial 0 1 = Inr 0 \<and> nEx example_actuarial 0 1 = Inr (1 / 2) \<and>
   AExn example_actuarial 0 1 = Inr (1 / 2)"
  using AExn_is_sum [OF example_insurances] example_insurances by simp

end
